theory Spec2Isabelle
  imports Complex_Main
begin

section \<open>Cost estimation of the IVFFlat index access method (src/ivfflat.c)\<close>

text \<open>
  The development embeds the two planner-facing functions of \<^verbatim>\<open>src/ivfflat.c\<close>,
  \<^verbatim>\<open>EstimateProbes\<close> and \<^verbatim>\<open>ivfflatcostestimate\<close>, and states the properties of
  the probe decision, of the selectivity product and of the page-cost adjustment.

  Numbers. The C \<^verbatim>\<open>int\<close> values (\<^verbatim>\<open>lists\<close>, \<^verbatim>\<open>probes\<close>, the two integer
  settings) are only compared, never added or multiplied, so they are HOL integers; the one
  place where the 32-bit range matters is the conversion of a \<^verbatim>\<open>double\<close> to
  \<^verbatim>\<open>int\<close> at the end of \<^verbatim>\<open>EstimateProbes\<close>, which is written out below.
  The C \<^verbatim>\<open>double\<close> values are real numbers; NaN, signed zeros and infinite inputs
  are outside the model. The only non-finite value the code itself produces is the infinite
  cost of the first branch of \<^verbatim>\<open>ivfflatcostestimate\<close>; the outputs therefore have the
  type \<open>float8\<close> below. The arithmetic on them is written twice. In the functions
  \<open>restrict_selectivity\<close>, \<open>tuplesPerList\<close>, \<open>EstimateProbes\<close> and in
  \<^verbatim>\<open>ivfflatcostestimate\<close> it is exact; this agrees with the code wherever the binary64
  operations are exact, as they are at every concrete input evaluated with these functions
  below, and the statements made with them are about comparisons, maxima and minima, and
  products and differences taken as such. The value of the adaptive estimate itself is
  different: the conversion to \<^verbatim>\<open>int\<close> is not continuous, so one unit in the last place
  of the quotient can change the result. For it, lines 92, 95 and 100 are written again with
  every operation rounded to binary64 (\<open>restrict_selectivity_b64\<close>, \<open>tuplesPerList_b64\<close>,
  \<open>EstimateProbes_b64\<close>), and the statement about the value of the estimate is made with
  these. A quotient of the model agrees
  with the C quotient only for a divisor other than zero (HOL gives \<open>x / 0 = 0\<close>, C gives an
  infinity or NaN), so every statement that depends on a quotient by \<^verbatim>\<open>lists\<close>
  is made for a list count other than zero: it assumes \<open>1 \<le> lists'\<close>, which is the range
  of the \<^verbatim>\<open>lists\<close> storage option, or a yield per list other than zero, or is about a
  given list count.
  The C variables \<^verbatim>\<open>lists\<close> and \<^verbatim>\<open>root\<close> are written \<open>lists'\<close> and
  \<open>root'\<close>, since HOL has constants of those names.
\<close>

subsection \<open>Data\<close>

type_synonym Oid = nat

datatype float8 = Finite real | Infinity

text \<open>An expression node of an ORDER BY clause; only the emptiness of the list is read.\<close>
datatype Expr = Expr nat

record RestrictInfo =
  norm_selec :: real

record RelOptInfo =
  pages :: nat

record IndexOptInfo =
  indexoid :: Oid
  reltablespace :: Oid
  rel :: RelOptInfo
  tuples :: real
  indrestrictinfo :: "RestrictInfo list"

record IndexPath =
  indexinfo :: IndexOptInfo
  indexorderbys :: "Expr list"

record PlannerInfo =
  limit_tuples :: real

record GenericCosts =
  indexStartupCost :: real
  indexTotalCost :: real
  indexSelectivity :: real
  indexCorrelation :: real
  numIndexPages :: real
  numIndexTuples :: real
  spc_random_page_cost :: real
  num_sa_scans :: real

text \<open>The three settings \<^verbatim>\<open>ivfflat_probes\<close>, \<^verbatim>\<open>ivfflat_max_probes\<close> and
  \<^verbatim>\<open>ivfflat_streaming\<close> (global variables of the source, lines 19 to 21). The bounds
  \<^verbatim>\<open>IVFFLAT_MIN_LISTS\<close> and \<^verbatim>\<open>IVFFLAT_MAX_LISTS\<close> that \<^verbatim>\<open>IvfflatInit\<close>
  declares for the two integer settings are macros of \<^verbatim>\<open>ivfflat.h\<close>; where a statement
  needs the lower bound, it assumes the value 1 that the configuration table of the
  specification gives.\<close>
record ivfflat_config =
  ivfflat_probes :: int
  ivfflat_max_probes :: int
  ivfflat_streaming :: bool

text \<open>
  What the source takes from PostgreSQL and from the rest of the extension, as parameters:
  the constant \<^verbatim>\<open>DEFAULT_INEQ_SEL\<close> of \<^verbatim>\<open>utils/selfuncs.h\<close>, the list count read
  by \<^verbatim>\<open>index_open\<close> and \<^verbatim>\<open>IvfflatGetMetaPageInfo\<close> (\<open>None\<close> when the index cannot
  be opened, which the source reports as an error), \<^verbatim>\<open>genericcostestimate\<close>, which
  fills in the costs structure it is handed, and \<^verbatim>\<open>get_tablespace_page_costs\<close>, which
  gives the random and the sequential page cost of a tablespace.
\<close>
record pg_externals =
  DEFAULT_INEQ_SEL :: real
  IvfflatGetMetaPageInfo :: "Oid \<Rightarrow> int option"
  genericcostestimate :: "PlannerInfo \<Rightarrow> IndexPath \<Rightarrow> real \<Rightarrow> GenericCosts \<Rightarrow> GenericCosts"
  get_tablespace_page_costs :: "Oid \<Rightarrow> real \<times> real"

text \<open>The five values written through the output pointers of \<^verbatim>\<open>ivfflatcostestimate\<close>.\<close>
record CostEstimate =
  out_indexStartupCost :: float8
  out_indexTotalCost :: float8
  out_indexSelectivity :: float8
  out_indexCorrelation :: float8
  out_indexPages :: float8

datatype error = Index_open_failed | Undefined_conversion

subsection \<open>Helpers of the C language\<close>

text \<open>The macros \<^verbatim>\<open>Max\<close> and \<^verbatim>\<open>Min\<close> of PostgreSQL's \<^verbatim>\<open>c.h\<close>.\<close>
definition Max_c :: "int \<Rightarrow> int \<Rightarrow> int" where
  "Max_c x y = (if x > y then x else y)"

definition Min_c :: "int \<Rightarrow> int \<Rightarrow> int" where
  "Min_c x y = (if x < y then x else y)"

definition INT_MIN :: int where
  "INT_MIN = - 2147483648"

definition INT_MAX :: int where
  "INT_MAX = 2147483647"

text \<open>The integral part of a real number: the fraction is discarded, towards zero.\<close>
definition trunc :: "real \<Rightarrow> int" where
  "trunc x = (if 0 \<le> x then \<lfloor>x\<rfloor> else \<lceil>x\<rceil>)"

text \<open>
  The implicit conversion of a \<^verbatim>\<open>double\<close> to \<^verbatim>\<open>int\<close> in a \<^verbatim>\<open>return\<close>: the
  value is truncated towards zero, and the behaviour is undefined when the integral part is
  not a value of \<^verbatim>\<open>int\<close>.
\<close>
definition double_to_int :: "real \<Rightarrow> error + int" where
  "double_to_int x =
     (if INT_MIN \<le> trunc x \<and> trunc x \<le> INT_MAX then Inr (trunc x)
      else Inl Undefined_conversion)"

subsection \<open>EstimateProbes (lines 73 to 101)\<close>

text \<open>The \<^verbatim>\<open>foreach\<close> loop of lines 86 to 93, with the running product as accumulator.\<close>
fun restrict_selectivity :: "real \<Rightarrow> real \<Rightarrow> RestrictInfo list \<Rightarrow> real" where
  "restrict_selectivity d selectivity [] = selectivity"
| "restrict_selectivity d selectivity (rinfo # rest) =
     restrict_selectivity d
       (if norm_selec rinfo \<ge> 0 \<and> norm_selec rinfo \<le> 1 \<and> norm_selec rinfo \<noteq> d
        then selectivity * norm_selec rinfo else selectivity)
       rest"

text \<open>Line 95: the expected number of matching tuples in one list.\<close>
definition tuplesPerList :: "pg_externals \<Rightarrow> IndexPath \<Rightarrow> int \<Rightarrow> real" where
  "tuplesPerList pg path lists' =
     tuples (indexinfo path)
       * restrict_selectivity (DEFAULT_INEQ_SEL pg) 1 (indrestrictinfo (indexinfo path))
       / real_of_int lists'"

definition EstimateProbes :: "pg_externals \<Rightarrow> PlannerInfo \<Rightarrow> IndexPath \<Rightarrow> int \<Rightarrow> error + int" where
  "EstimateProbes pg root' path lists' =
     (if limit_tuples root' < 0 then Inr 0
      else if tuplesPerList pg path lists' = 0 then Inr lists'
      else double_to_int (limit_tuples root' / tuplesPerList pg path lists'))"

subsection \<open>EstimateProbes in binary64 arithmetic\<close>

text \<open>
  Rounding of a real number to binary64, to nearest with ties to even. The numbers of the
  format near \<open>x\<close> are the integer multiples of \<open>2 powi quantum_exp x\<close>: a significand of 53
  bits below the binary exponent of \<open>x\<close>, and the fixed spacing \<open>2 powi (- 1074)\<close> in the
  subnormal range. A result of magnitude \<open>2 ^ 1024\<close> or more, which is an infinity in C, is
  left as it is; in \<^verbatim>\<open>EstimateProbes\<close> only the quotient of line 100 can be that large,
  and then its conversion to \<^verbatim>\<open>int\<close> is undefined in C and in the model alike.
\<close>
definition round_even :: "real \<Rightarrow> int" where
  "round_even y =
     (let f = \<lfloor>y\<rfloor>; r = y - real_of_int f
      in if r < 1 / 2 then f else if r > 1 / 2 then f + 1 else if even f then f else f + 1)"

definition quantum_exp :: "real \<Rightarrow> int" where
  "quantum_exp x = max (\<lfloor>log 2 \<bar>x\<bar>\<rfloor> - 52) (- 1074)"

definition fl64 :: "real \<Rightarrow> real" where
  "fl64 x =
     (if x = 0 then 0
      else real_of_int (round_even (x / 2 powi quantum_exp x)) * 2 powi quantum_exp x)"

text \<open>Lines 86 to 93 with the product of line 92 rounded.\<close>
fun restrict_selectivity_b64 :: "real \<Rightarrow> real \<Rightarrow> RestrictInfo list \<Rightarrow> real" where
  "restrict_selectivity_b64 d selectivity [] = selectivity"
| "restrict_selectivity_b64 d selectivity (rinfo # rest) =
     restrict_selectivity_b64 d
       (if norm_selec rinfo \<ge> 0 \<and> norm_selec rinfo \<le> 1 \<and> norm_selec rinfo \<noteq> d
        then fl64 (selectivity * norm_selec rinfo) else selectivity)
       rest"

text \<open>
  Line 95 with the product and then the quotient rounded; the conversion of the 32-bit
  \<^verbatim>\<open>lists\<close> to \<^verbatim>\<open>double\<close> is exact.
\<close>
definition tuplesPerList_b64 :: "pg_externals \<Rightarrow> IndexPath \<Rightarrow> int \<Rightarrow> real" where
  "tuplesPerList_b64 pg path lists' =
     fl64 (fl64 (tuples (indexinfo path)
                   * restrict_selectivity_b64 (DEFAULT_INEQ_SEL pg) 1
                       (indrestrictinfo (indexinfo path)))
           / real_of_int lists')"

text \<open>Lines 82 to 100 with the quotient of line 100 rounded before it is converted.\<close>
definition EstimateProbes_b64 ::
  "pg_externals \<Rightarrow> PlannerInfo \<Rightarrow> IndexPath \<Rightarrow> int \<Rightarrow> error + int" where
  "EstimateProbes_b64 pg root' path lists' =
     (if limit_tuples root' < 0 then Inr 0
      else if tuplesPerList_b64 pg path lists' = 0 then Inr lists'
      else double_to_int (fl64 (limit_tuples root' / tuplesPerList_b64 pg path lists')))"

subsection \<open>ivfflatcostestimate (lines 106 to 189)\<close>

text \<open>Lines 136 to 143: the number of probes the estimate is made for.\<close>
definition choose_probes ::
  "ivfflat_config \<Rightarrow> pg_externals \<Rightarrow> PlannerInfo \<Rightarrow> IndexPath \<Rightarrow> int \<Rightarrow> error + int" where
  "choose_probes cfg pg root' path lists' =
     (if ivfflat_streaming cfg then
        (case EstimateProbes pg root' path lists' of
           Inl e \<Rightarrow> Inl e
         | Inr estimated \<Rightarrow>
             (let probes = Max_c (ivfflat_probes cfg) estimated
              in if ivfflat_max_probes cfg \<noteq> - 1
                 then Inr (Min_c probes (ivfflat_max_probes cfg))
                 else Inr probes))
      else Inr (ivfflat_probes cfg))"

text \<open>Lines 146 to 148: the ratio of lists to visit.\<close>
definition scan_ratio :: "int \<Rightarrow> int \<Rightarrow> real" where
  "scan_ratio probes lists' =
     (let ratio = real_of_int probes / real_of_int lists'
      in if ratio > 1 then 1 else ratio)"

text \<open>Lines 130 and 155: the zeroed costs structure with the number of tuples to visit.\<close>
definition costs_init :: "IndexPath \<Rightarrow> real \<Rightarrow> GenericCosts" where
  "costs_init path ratio =
     \<lparr> indexStartupCost = 0, indexTotalCost = 0, indexSelectivity = 0,
       indexCorrelation = 0, numIndexPages = 0,
       numIndexTuples = tuples (indexinfo path) * ratio,
       spc_random_page_cost = 0, num_sa_scans = 0 \<rparr>"

text \<open>Lines 161 to 174: the adjustment of the page costs.\<close>
definition adjust_page_cost :: "GenericCosts \<Rightarrow> nat \<Rightarrow> real \<Rightarrow> real \<Rightarrow> GenericCosts" where
  "adjust_page_cost costs rel_pages ratio spc_seq_page_cost =
     (if numIndexPages costs > real rel_pages \<and> ratio < 0.5 then
        (let costs1 = costs\<lparr> indexTotalCost := indexTotalCost costs
                 - numIndexPages costs * (spc_random_page_cost costs - spc_seq_page_cost) \<rparr>
         in costs1\<lparr> indexTotalCost := indexTotalCost costs1
                 - (numIndexPages costs1 - real rel_pages) * spc_seq_page_cost \<rparr>)
      else
        costs\<lparr> indexTotalCost := indexTotalCost costs
                 - 0.5 * numIndexPages costs * (spc_random_page_cost costs - spc_seq_page_cost) \<rparr>)"

text \<open>Lines 180 and 181: the ratio replaces a larger selectivity.\<close>
definition cap_selectivity :: "GenericCosts \<Rightarrow> real \<Rightarrow> GenericCosts" where
  "cap_selectivity costs ratio =
     (if ratio < indexSelectivity costs then costs\<lparr> indexSelectivity := ratio \<rparr> else costs)"

text \<open>Lines 122 to 126: the estimate of a path without ORDER BY.\<close>
definition never_use_index :: CostEstimate where
  "never_use_index =
     \<lparr> out_indexStartupCost = Infinity, out_indexTotalCost = Infinity,
       out_indexSelectivity = Finite 0, out_indexCorrelation = Finite 0,
       out_indexPages = Finite 0 \<rparr>"

text \<open>Lines 184 to 188: the start-up cost is the total cost.\<close>
definition report_costs :: "GenericCosts \<Rightarrow> CostEstimate" where
  "report_costs costs =
     \<lparr> out_indexStartupCost = Finite (indexTotalCost costs),
       out_indexTotalCost = Finite (indexTotalCost costs),
       out_indexSelectivity = Finite (indexSelectivity costs),
       out_indexCorrelation = Finite (indexCorrelation costs),
       out_indexPages = Finite (numIndexPages costs) \<rparr>"

text \<open>The costs structure after the generic estimator has run (lines 155 and 157).\<close>
definition generic_costs ::
  "pg_externals \<Rightarrow> PlannerInfo \<Rightarrow> IndexPath \<Rightarrow> real \<Rightarrow> int \<Rightarrow> int \<Rightarrow> GenericCosts" where
  "generic_costs pg root' path loop_count probes lists' =
     genericcostestimate pg root' path loop_count (costs_init path (scan_ratio probes lists'))"

definition ivfflatcostestimate ::
  "ivfflat_config \<Rightarrow> pg_externals \<Rightarrow> PlannerInfo \<Rightarrow> IndexPath \<Rightarrow> real \<Rightarrow> error + CostEstimate" where
  "ivfflatcostestimate cfg pg root' path loop_count =
     (if indexorderbys path = [] then Inr never_use_index
      else
        (case IvfflatGetMetaPageInfo pg (indexoid (indexinfo path)) of
           None \<Rightarrow> Inl Index_open_failed
         | Some lists' \<Rightarrow>
             (case choose_probes cfg pg root' path lists' of
                Inl e \<Rightarrow> Inl e
              | Inr probes \<Rightarrow>
                  (let ratio = scan_ratio probes lists';
                       costs = generic_costs pg root' path loop_count probes lists';
                       spc_seq_page_cost =
                         snd (get_tablespace_page_costs pg (reltablespace (indexinfo path)));
                       costs = adjust_page_cost costs (pages (rel (indexinfo path))) ratio
                                 spc_seq_page_cost;
                       costs = cap_selectivity costs ratio
                   in Inr (report_costs costs)))))"

subsection \<open>Concrete inputs\<close>

text \<open>
  A generic estimator that reports fixed costs, and the inputs the concrete evaluations below
  are made at: the externals for an index of a given list count and given page costs of its
  tablespace, a path over an index of a given tuple count and given restriction selectivities
  whose table has 9 pages, and the settings.
\<close>
definition example_generic ::
  "real \<Rightarrow> real \<Rightarrow> real \<Rightarrow> PlannerInfo \<Rightarrow> IndexPath \<Rightarrow> real \<Rightarrow> GenericCosts \<Rightarrow> GenericCosts" where
  "example_generic total_cost npages random_cost root' path loop_count costs =
     costs\<lparr> indexStartupCost := 0, indexTotalCost := total_cost, indexSelectivity := 1,
            indexCorrelation := 0, numIndexPages := npages,
            spc_random_page_cost := random_cost, num_sa_scans := 1 \<rparr>"

definition example_pg :: "int \<Rightarrow> real \<Rightarrow> real \<Rightarrow> pg_externals" where
  "example_pg lists' random_cost seq_cost =
     \<lparr> DEFAULT_INEQ_SEL = 0.3333333333333333,
       IvfflatGetMetaPageInfo = (\<lambda>oid. Some lists'),
       genericcostestimate = example_generic 100 10 random_cost,
       get_tablespace_page_costs = (\<lambda>oid. (random_cost, seq_cost)) \<rparr>"

definition example_path :: "real \<Rightarrow> real list \<Rightarrow> Expr list \<Rightarrow> IndexPath" where
  "example_path ntuples sels orderbys =
     \<lparr> indexinfo = \<lparr> indexoid = 1, reltablespace = 0, rel = \<lparr> pages = 9 \<rparr>,
                     tuples = ntuples,
                     indrestrictinfo = map (\<lambda>s. \<lparr> norm_selec = s \<rparr>) sels \<rparr>,
       indexorderbys = orderbys \<rparr>"

definition example_config :: "int \<Rightarrow> int \<Rightarrow> bool \<Rightarrow> ivfflat_config" where
  "example_config p m s =
     \<lparr> ivfflat_probes = p, ivfflat_max_probes = m, ivfflat_streaming = s \<rparr>"

text \<open>
  A generic estimator that shows what it is handed: it reports the number of index tuples it
  receives as its page count and four times that number as its total cost.
\<close>
definition echo_generic ::
  "PlannerInfo \<Rightarrow> IndexPath \<Rightarrow> real \<Rightarrow> GenericCosts \<Rightarrow> GenericCosts" where
  "echo_generic root' path loop_count costs =
     costs\<lparr> indexTotalCost := 4 * numIndexTuples costs, indexSelectivity := 1,
            numIndexPages := numIndexTuples costs, spc_random_page_cost := 4,
            num_sa_scans := 1 \<rparr>"

definition example_pg_echo :: "int \<Rightarrow> pg_externals" where
  "example_pg_echo lists' =
     \<lparr> DEFAULT_INEQ_SEL = 0.3333333333333333,
       IvfflatGetMetaPageInfo = (\<lambda>oid. Some lists'),
       genericcostestimate = echo_generic,
       get_tablespace_page_costs = (\<lambda>oid. (4, 1)) \<rparr>"

section \<open>Properties\<close>

subsection \<open>Auxiliary facts\<close>

lemma Max_c_max: "Max_c x y = max x y"
  by (simp add: Max_c_def max_def)

lemma Min_c_min: "Min_c x y = min x y"
  by (simp add: Min_c_def min_def)

lemma scan_ratio_min: "scan_ratio p l = min (real_of_int p / real_of_int l) 1"
  by (simp add: scan_ratio_def Let_def min_def)

lemma scan_ratio_le_1: "scan_ratio p l \<le> 1"
  by (simp add: scan_ratio_min)

lemma scan_ratio_pos: "1 \<le> p \<Longrightarrow> 1 \<le> l \<Longrightarrow> 0 < scan_ratio p l"
  by (simp add: scan_ratio_min)

lemma choose_probes_streaming:
  "ivfflat_streaming cfg \<Longrightarrow> EstimateProbes pg root' path lists' = Inr est \<Longrightarrow>
   choose_probes cfg pg root' path lists' =
     Inr (if ivfflat_max_probes cfg \<noteq> - 1
          then min (max (ivfflat_probes cfg) est) (ivfflat_max_probes cfg)
          else max (ivfflat_probes cfg) est)"
  by (simp add: choose_probes_def Max_c_max Min_c_min Let_def)

lemma choose_probes_fixed:
  "\<not> ivfflat_streaming cfg \<Longrightarrow> choose_probes cfg pg root' path lists' = Inr (ivfflat_probes cfg)"
  by (simp add: choose_probes_def)

lemma restrict_selectivity_acc:
  "restrict_selectivity d acc rs =
     acc * prod_list (map (\<lambda>r. if 0 \<le> norm_selec r \<and> norm_selec r \<le> 1 \<and> norm_selec r \<noteq> d
                                then norm_selec r else 1) rs)"
  by (induction rs arbitrary: acc) simp_all

lemma prod_list_filter_one:
  "prod_list (map (\<lambda>r. if P r then f r else (1::real)) rs) = prod_list (map f (filter P rs))"
  by (induction rs) simp_all

lemma adjust_page_cost_total:
  assumes "numIndexPages costs > real rel_pages" and "ratio < 0.5"
  shows "indexTotalCost (adjust_page_cost costs rel_pages ratio seq) =
           indexTotalCost costs
             - numIndexPages costs * (spc_random_page_cost costs - seq)
             - (numIndexPages costs - real rel_pages) * seq"
  using assms by (simp add: adjust_page_cost_def Let_def)

lemma cap_selectivity_total: "indexTotalCost (cap_selectivity costs ratio) = indexTotalCost costs"
  by (simp add: cap_selectivity_def)

lemma ivfflatcostestimate_total:
  assumes "indexorderbys path \<noteq> []"
    and "IvfflatGetMetaPageInfo pg (indexoid (indexinfo path)) = Some lists'"
    and "choose_probes cfg pg root' path lists' = Inr probes"
  shows "ivfflatcostestimate cfg pg root' path loop_count =
           Inr (report_costs (cap_selectivity
             (adjust_page_cost (generic_costs pg root' path loop_count probes lists')
                (pages (rel (indexinfo path))) (scan_ratio probes lists')
                (snd (get_tablespace_page_costs pg (reltablespace (indexinfo path)))))
             (scan_ratio probes lists')))"
  using assms by (simp add: ivfflatcostestimate_def Let_def)

lemmas example_defs = example_generic_def example_pg_def example_path_def example_config_def

lemmas estimate_defs = EstimateProbes_def tuplesPerList_def double_to_int_def trunc_def
  INT_MIN_def INT_MAX_def

subsection \<open>Facts about the rounding\<close>

lemma round_even_cases: "round_even y = \<lfloor>y\<rfloor> \<or> round_even y = \<lfloor>y\<rfloor> + 1"
  by (simp add: round_even_def Let_def)

lemma round_even_of_int [simp]: "round_even (real_of_int m) = m"
  by (simp add: round_even_def)

lemma round_even_ge: "real_of_int m \<le> y \<Longrightarrow> m \<le> round_even y"
proof -
  assume "real_of_int m \<le> y"
  then have "m \<le> \<lfloor>y\<rfloor>" by (simp add: le_floor_iff)
  with round_even_cases [of y] show ?thesis by auto
qed

lemma round_even_le: "y \<le> real_of_int m \<Longrightarrow> round_even y \<le> m"
proof -
  assume a: "y \<le> real_of_int m"
  then have f: "\<lfloor>y\<rfloor> \<le> m" by (metis floor_mono floor_of_int)
  show ?thesis
  proof (cases "\<lfloor>y\<rfloor> = m")
    case True
    with a have "y = real_of_int m" by linarith
    then show ?thesis by simp
  next
    case False
    with f have "\<lfloor>y\<rfloor> + 1 \<le> m" by simp
    with f round_even_cases [of y] show ?thesis by auto
  qed
qed

lemma floor_log2_binade:
  assumes "2 powi e \<le> \<bar>x\<bar>" and "\<bar>x\<bar> < 2 powi (e + 1)"
  shows "\<lfloor>log 2 \<bar>x\<bar>\<rfloor> = e"
proof -
  have "0 < (2::real) powi e" by simp
  with assms(1) have pos: "0 < \<bar>x\<bar>" by linarith
  have "(2::real) powr real_of_int e = 2 powi e"
    and "(2::real) powr (real_of_int e + 1) = 2 powi (e + 1)"
    using powr_real_of_int' [of 2 e] powr_real_of_int' [of 2 "e + 1"]
    by (simp_all add: add.commute)
  with assms show ?thesis
    using floor_log_eq_powr_iff [of "\<bar>x\<bar>" 2 e] pos by simp
qed

lemma fl64_binade:
  assumes "2 powi e \<le> \<bar>x\<bar>" and "\<bar>x\<bar> < 2 powi (e + 1)" and "- 1022 \<le> e"
  shows "fl64 x = real_of_int (round_even (x / 2 powi (e - 52))) * 2 powi (e - 52)"
proof -
  have "0 < (2::real) powi e" by simp
  with assms(1) have "x \<noteq> 0" by linarith
  moreover have "quantum_exp x = e - 52"
    using floor_log2_binade [OF assms(1,2)] assms(3) by (simp add: quantum_exp_def)
  ultimately show ?thesis by (simp add: fl64_def)
qed

lemma fl64_binade_nat:
  assumes "2 powi e \<le> \<bar>x\<bar>" and "\<bar>x\<bar> < 2 powi (e + 1)" and "- 1022 \<le> e" and "e \<le> 52"
  shows "fl64 x = real_of_int (round_even (x * 2 ^ nat (52 - e))) / 2 ^ nat (52 - e)"
proof -
  have "(2::real) powi (e - 52) = 1 / 2 ^ nat (52 - e)"
    using assms(4) by (simp add: power_int_def field_simps)
  then show ?thesis
    using fl64_binade [OF assms(1,2,3)] by simp
qed


lemma quantum_exp_range:
  assumes "x \<noteq> 0" and "\<bar>x\<bar> < 2 ^ 53"
  shows "quantum_exp x \<le> 0" and "- 1074 \<le> quantum_exp x"
proof -
  from assms(1) have pos: "0 < \<bar>x\<bar>" by simp
  have "(2::real) powr 53 = 2 ^ 53"
    using powr_realpow [of 2 53] by simp
  with assms(2) have "\<bar>x\<bar> < 2 powr 53" by simp
  with pos have "log 2 \<bar>x\<bar> < 53" by (simp add: log_less_iff)
  then have "\<lfloor>log 2 \<bar>x\<bar>\<rfloor> < 53" by (simp add: floor_less_iff)
  then show "quantum_exp x \<le> 0" by (simp add: quantum_exp_def)
  show "- 1074 \<le> quantum_exp x" by (simp add: quantum_exp_def)
qed

lemma fl64_grid:
  assumes "x \<noteq> 0" and "\<bar>x\<bar> < 2 ^ 53"
  shows "fl64 x = real_of_int (round_even (x * real_of_int (2 ^ nat (- quantum_exp x))))
                    / real_of_int (2 ^ nat (- quantum_exp x))"
proof -
  have "(2::real) powi quantum_exp x = 1 / 2 ^ nat (- quantum_exp x)"
    using quantum_exp_range(1) [OF assms] by (simp add: power_int_def field_simps)
  with assms(1) show ?thesis by (simp add: fl64_def)
qed

lemma fl64_between:
  assumes "\<bar>x\<bar> < 2 ^ 53"
  shows "real_of_int \<lfloor>x\<rfloor> \<le> fl64 x" and "fl64 x \<le> real_of_int \<lceil>x\<rceil>"
proof -
  define M :: int where "M = 2 ^ nat (- quantum_exp x)"
  have M: "0 < M" by (simp add: M_def)
  have "real_of_int \<lfloor>x\<rfloor> \<le> fl64 x \<and> fl64 x \<le> real_of_int \<lceil>x\<rceil>"
  proof (cases "x = 0")
    case True
    then show ?thesis by (simp add: fl64_def)
  next
    case False
    then have f: "fl64 x = real_of_int (round_even (x * real_of_int M)) / real_of_int M"
      using fl64_grid [OF False assms] by (simp add: M_def)
    have "real_of_int (\<lfloor>x\<rfloor> * M) \<le> x * real_of_int M"
      using M by simp
    then have "\<lfloor>x\<rfloor> * M \<le> round_even (x * real_of_int M)"
      by (rule round_even_ge)
    then have "real_of_int (\<lfloor>x\<rfloor> * M) \<le> real_of_int (round_even (x * real_of_int M))"
      by (simp only: of_int_le_iff)
    then have lo: "real_of_int \<lfloor>x\<rfloor> \<le> fl64 x"
      using M by (simp add: f field_simps)
    have "x * real_of_int M \<le> real_of_int (\<lceil>x\<rceil> * M)"
      using M by simp
    then have "round_even (x * real_of_int M) \<le> \<lceil>x\<rceil> * M"
      by (rule round_even_le)
    then have "real_of_int (round_even (x * real_of_int M)) \<le> real_of_int (\<lceil>x\<rceil> * M)"
      by (simp only: of_int_le_iff)
    then have hi: "fl64 x \<le> real_of_int \<lceil>x\<rceil>"
      using M by (simp add: f field_simps)
    from lo hi show ?thesis ..
  qed
  then show "real_of_int \<lfloor>x\<rfloor> \<le> fl64 x" and "fl64 x \<le> real_of_int \<lceil>x\<rceil>"
    by simp_all
qed

lemma fl64_of_int:
  assumes "\<bar>n\<bar> < 2 ^ 53"
  shows "fl64 (real_of_int n) = real_of_int n"
proof -
  from assms have "real_of_int \<bar>n\<bar> < real_of_int (2 ^ 53)"
    by (simp only: of_int_less_iff)
  then have "\<bar>real_of_int n\<bar> < 2 ^ 53" by simp
  from fl64_between [OF this] show ?thesis by simp
qed

lemma trunc_between: "\<lfloor>x\<rfloor> \<le> trunc x \<and> trunc x \<le> \<lceil>x\<rceil>"
  by (simp add: trunc_def floor_le_ceiling)

lemma trunc_fl64_between:
  assumes "\<bar>x\<bar> < 2 ^ 53"
  shows "\<lfloor>x\<rfloor> \<le> trunc (fl64 x)" and "trunc (fl64 x) \<le> \<lceil>x\<rceil>"
proof -
  from fl64_between(1) [OF assms] have "\<lfloor>x\<rfloor> \<le> \<lfloor>fl64 x\<rfloor>"
    by (simp add: le_floor_iff)
  with trunc_between [of "fl64 x"] show "\<lfloor>x\<rfloor> \<le> trunc (fl64 x)" by simp
  from fl64_between(2) [OF assms] have "\<lceil>fl64 x\<rceil> \<le> \<lceil>x\<rceil>"
    by (simp add: ceiling_le_iff)
  with trunc_between [of "fl64 x"] show "trunc (fl64 x) \<le> \<lceil>x\<rceil>" by simp
qed


lemma INT_range_53:
  assumes "real_of_int INT_MIN \<le> q" and "q \<le> real_of_int INT_MAX"
  shows "\<bar>q\<bar> < 2 ^ 53" and "INT_MIN \<le> \<lfloor>q\<rfloor>" and "\<lceil>q\<rceil> \<le> INT_MAX"
proof -
  from assms show "\<bar>q\<bar> < 2 ^ 53" by (simp add: INT_MIN_def INT_MAX_def)
  from assms(1) show "INT_MIN \<le> \<lfloor>q\<rfloor>" by (simp add: le_floor_iff)
  from assms(2) show "\<lceil>q\<rceil> \<le> INT_MAX" by (simp add: ceiling_le_iff)
qed

lemma tuplesPerList_b64_1000: "tuplesPerList_b64 (example_pg 100 4 1) (example_path 1000 [] [Expr 0]) 100 = 10"
proof -
  have "fl64 (real_of_int 1000) = real_of_int 1000" and "fl64 (real_of_int 10) = real_of_int 10"
    by (rule fl64_of_int, simp)+
  then show ?thesis by (simp add: tuplesPerList_b64_def example_defs)
qed

lemma fl64_half: "fl64 (1 / 2) = 1 / 2"
  by (subst fl64_binade_nat [where e = "- 1"]) (simp_all add: power_int_minus round_even_def)

lemma tuplesPerList_b64_110:
  "tuplesPerList_b64 (example_pg 100 4 1) (example_path 110 [] [Expr 0]) 100
     = 2476979795053773 / 2251799813685248"
proof -
  have "fl64 (real_of_int 110) = real_of_int 110"
    by (rule fl64_of_int) simp
  moreover have "fl64 (11 / 10) = 2476979795053773 / 2251799813685248"
    by (subst fl64_binade_nat [where e = 0]) (simp_all add: round_even_def)
  ultimately show ?thesis by (simp add: tuplesPerList_b64_def example_defs)
qed

lemma fl64_quotient_55:
  "fl64 (123848989752688640 / 2476979795053773) = 7036874417766399 / 140737488355328"
  by (subst fl64_binade_nat [where e = 5]) (simp_all add: round_even_def)

text \<open>
  At the inputs at which the exact functions are evaluated for the probe count below (1000
  tuples, 100 lists, no restriction, limits 50 and 5000), every operation is exact in
  binary64, and the rounded functions return the same values.
\<close>
lemma rounded_estimate_agrees_at_examples:
  "EstimateProbes_b64 (example_pg 100 4 1) \<lparr> limit_tuples = 50 \<rparr>
       (example_path 1000 [] [Expr 0]) 100 = Inr 5 \<and>
   EstimateProbes (example_pg 100 4 1) \<lparr> limit_tuples = 50 \<rparr>
       (example_path 1000 [] [Expr 0]) 100 = Inr 5 \<and>
   EstimateProbes_b64 (example_pg 100 4 1) \<lparr> limit_tuples = 5000 \<rparr>
       (example_path 1000 [] [Expr 0]) 100 = Inr 500 \<and>
   EstimateProbes (example_pg 100 4 1) \<lparr> limit_tuples = 5000 \<rparr>
       (example_path 1000 [] [Expr 0]) 100 = Inr 500"
proof -
  have "fl64 (real_of_int 5) = real_of_int 5" and "fl64 (real_of_int 500) = real_of_int 500"
    by (rule fl64_of_int, simp)+
  then have "EstimateProbes_b64 (example_pg 100 4 1) \<lparr> limit_tuples = 50 \<rparr>
       (example_path 1000 [] [Expr 0]) 100 = Inr 5"
    and "EstimateProbes_b64 (example_pg 100 4 1) \<lparr> limit_tuples = 5000 \<rparr>
       (example_path 1000 [] [Expr 0]) 100 = Inr 500"
    by (simp_all add: EstimateProbes_b64_def tuplesPerList_b64_1000 double_to_int_def
        trunc_def INT_MIN_def INT_MAX_def)
  then show ?thesis
    by (simp add: estimate_defs example_defs)
qed

subsection \<open>The claims\<close>

text \<open>
  C1. A path with no ORDER BY clause (\<^verbatim>\<open>indexorderbys\<close> empty) gets an infinite start-up
  cost, an infinite total cost, and selectivity, correlation and page count zero, whatever the
  settings, the list count and the rest of the query are; the index is not even opened.
\<close>
theorem no_order_never_used:
  "indexorderbys path = [] \<Longrightarrow>
   ivfflatcostestimate cfg pg root' path loop_count =
     Inr \<lparr> out_indexStartupCost = Infinity, out_indexTotalCost = Infinity,
           out_indexSelectivity = Finite 0, out_indexCorrelation = Finite 0,
           out_indexPages = Finite 0 \<rparr>"
  by (simp add: ivfflatcostestimate_def never_use_index_def)

theorem no_order_never_used_witness:
  "indexorderbys (example_path 1000 [0.5] []) = [] \<and>
   ivfflatcostestimate (example_config 7 3 True) (example_pg 100 4 1)
       \<lparr> limit_tuples = 50 \<rparr> (example_path 1000 [0.5] []) 1 =
     Inr \<lparr> out_indexStartupCost = Infinity, out_indexTotalCost = Infinity,
           out_indexSelectivity = Finite 0, out_indexCorrelation = Finite 0,
           out_indexPages = Finite 0 \<rparr>"
  using no_order_never_used [of "example_path 1000 [0.5] []" "example_config 7 3 True"
      "example_pg 100 4 1" "\<lparr> limit_tuples = 50 \<rparr>" 1]
  by (simp add: example_path_def)

text \<open>
  C2. The claim is that the probe decision \<open>p\<close> of every call satisfies
  \<open>1 \<le> p \<and> p \<le> lists\<close>. The source never compares the probe count with the list count:
  with the setting \<^verbatim>\<open>ivfflat.probes = 10\<close>, streaming off and an index of 5 lists the
  decision is 10.
\<close>
theorem probes_not_capped_by_lists_counterexample:
  "IvfflatGetMetaPageInfo (example_pg 5 4 1)
       (indexoid (indexinfo (example_path 1000 [] [Expr 0]))) = Some 5 \<and>
   choose_probes (example_config 10 (- 1) False) (example_pg 5 4 1)
       \<lparr> limit_tuples = 50 \<rparr> (example_path 1000 [] [Expr 0]) 5 = Inr 10 \<and>
   \<not> (1 \<le> (10::int) \<and> (10::int) \<le> 5)"
  by (simp add: choose_probes_def example_config_def example_pg_def)

text \<open>
  C2, as the code has it. With the settings in their declared ranges (\<^verbatim>\<open>ivfflat.probes\<close> at
  least 1, \<^verbatim>\<open>ivfflat.max_probes\<close> either \<open>-1\<close> or at least 1) and a list count of at
  least 1, a probe decision \<open>p\<close> is at least 1 and the ratio of lists visited that is computed
  from it lies in \<open>(0, 1]\<close>: the limit by the list count is applied to the ratio, not to \<open>p\<close>.
  The decision itself is at most the list count when, with streaming off, the configured
  probes are, or when, with streaming on, \<^verbatim>\<open>ivfflat.max_probes\<close> is set and is.
\<close>
theorem probes_at_least_one:
  assumes "choose_probes cfg pg root' path lists' = Inr p"
    and "1 \<le> ivfflat_probes cfg"
    and "ivfflat_max_probes cfg = - 1 \<or> 1 \<le> ivfflat_max_probes cfg"
    and "1 \<le> lists'"
  shows "1 \<le> p \<and> 0 < scan_ratio p lists' \<and> scan_ratio p lists' \<le> 1 \<and>
         ((if ivfflat_streaming cfg
           then ivfflat_max_probes cfg \<noteq> - 1 \<and> ivfflat_max_probes cfg \<le> lists'
           else ivfflat_probes cfg \<le> lists') \<longrightarrow> p \<le> lists')"
proof -
  have low: "1 \<le> p"
  proof (cases "ivfflat_streaming cfg")
    case False
    with assms(1,2) show ?thesis by (simp add: choose_probes_fixed)
  next
    case True
    with assms(1) obtain est where "EstimateProbes pg root' path lists' = Inr est"
      by (auto simp: choose_probes_def split: sum.splits)
    with True assms show ?thesis
      by (auto simp: choose_probes_streaming split: if_splits)
  qed
  have up: "(if ivfflat_streaming cfg
           then ivfflat_max_probes cfg \<noteq> - 1 \<and> ivfflat_max_probes cfg \<le> lists'
           else ivfflat_probes cfg \<le> lists') \<longrightarrow> p \<le> lists'"
  proof (cases "ivfflat_streaming cfg")
    case False
    with assms(1) show ?thesis by (simp add: choose_probes_fixed)
  next
    case True
    with assms(1) obtain est where "EstimateProbes pg root' path lists' = Inr est"
      by (auto simp: choose_probes_def split: sum.splits)
    with True assms(1) show ?thesis
      by (auto simp: choose_probes_streaming split: if_splits)
  qed
  from low assms(4) up show ?thesis
    by (simp add: scan_ratio_pos scan_ratio_le_1)
qed

theorem probes_at_least_one_witness:
  "choose_probes (example_config 1 (- 1) True) (example_pg 100 4 1)
       \<lparr> limit_tuples = 5000 \<rparr> (example_path 1000 [] [Expr 0]) 100 = Inr 500 \<and>
   (1::int) \<le> 500 \<and> scan_ratio 500 100 = 1 \<and> \<not> (500::int) \<le> 100"
proof -
  have c: "choose_probes (example_config 1 (- 1) True) (example_pg 100 4 1)
       \<lparr> limit_tuples = 5000 \<rparr> (example_path 1000 [] [Expr 0]) 100 = Inr 500"
    by (simp add: choose_probes_def EstimateProbes_def tuplesPerList_def double_to_int_def
        trunc_def INT_MIN_def INT_MAX_def Max_c_def example_config_def example_pg_def
        example_path_def)
  have "1 \<le> ivfflat_probes (example_config 1 (- 1) True)"
    and "ivfflat_max_probes (example_config 1 (- 1) True) = - 1
         \<or> 1 \<le> ivfflat_max_probes (example_config 1 (- 1) True)"
    and "(1::int) \<le> 100"
    by (simp_all add: example_config_def)
  from probes_at_least_one [OF c this] c show ?thesis
    by (simp add: scan_ratio_def)
qed

text \<open>
  C3. The claim is that with streaming off the probe count is
  \<open>min configuredProbes L\<close>. The source takes the setting as it is: with
  \<^verbatim>\<open>ivfflat.probes = 200\<close> and 100 lists the probe count is 200, not 100.
\<close>
theorem fixed_probes_not_clamped_counterexample:
  "\<not> ivfflat_streaming (example_config 200 (- 1) False) \<and>
   choose_probes (example_config 200 (- 1) False) (example_pg 100 4 1)
       \<lparr> limit_tuples = 50 \<rparr> (example_path 1000 [] [Expr 0]) 100 = Inr 200 \<and>
   choose_probes (example_config 200 (- 1) False) (example_pg 100 4 1)
       \<lparr> limit_tuples = 50 \<rparr> (example_path 1000 [] [Expr 0]) 100
     \<noteq> Inr (min (ivfflat_probes (example_config 200 (- 1) False)) 100)"
  by (simp add: choose_probes_def example_config_def)

text \<open>
  C3, as the code has it. With streaming off the probe count is the configured
  \<^verbatim>\<open>ivfflat.probes\<close>, whatever the limit and the restrictions of the query are. The
  list count limits the ratio only: for a list count of at least 1 the ratio of lists visited
  is \<open>min configuredProbes L / L\<close>.
\<close>
theorem fixed_probes_are_configured_probes:
  assumes "\<not> ivfflat_streaming cfg"
  shows "choose_probes cfg pg root' path lists' = Inr (ivfflat_probes cfg) \<and>
         (1 \<le> lists' \<longrightarrow>
            scan_ratio (ivfflat_probes cfg) lists' =
              real_of_int (min (ivfflat_probes cfg) lists') / real_of_int lists')"
proof -
  have "scan_ratio (ivfflat_probes cfg) lists' =
          real_of_int (min (ivfflat_probes cfg) lists') / real_of_int lists'" if "1 \<le> lists'"
    using that by (auto simp: scan_ratio_def Let_def min_def divide_simps)
  with assms show ?thesis
    by (simp add: choose_probes_fixed)
qed

theorem fixed_probes_are_configured_probes_witness:
  "choose_probes (example_config 200 3 False) (example_pg 100 4 1)
       \<lparr> limit_tuples = 5 \<rparr> (example_path 1000 [0.5] [Expr 0]) 100 = Inr 200 \<and>
   scan_ratio 200 100 = 1"
  using fixed_probes_are_configured_probes [of "example_config 200 3 False" "example_pg 100 4 1"
      "\<lparr> limit_tuples = 5 \<rparr>" "example_path 1000 [0.5] [Expr 0]" 100]
  by (simp add: example_config_def)

text \<open>
  C4. The claim is that, for a limit that is not negative and a yield per list other than
  zero, the adaptive estimate is the quotient of the limit by the yield, rounded upwards, with
  no cap. The source returns the quotient through the conversion to \<^verbatim>\<open>int\<close>, which
  discards the fraction: for a limit of 5 and a yield of 10 tuples per list (1000 tuples, 100
  lists, no restriction) the estimate is 0, and the quotient rounded upwards is 1. The
  conversion also bounds what can be returned: for a limit of \<open>10 ^ 12\<close> and the same yield
  the quotient rounded upwards is \<open>10 ^ 11\<close>, which is no value of \<^verbatim>\<open>int\<close>, and the
  conversion is undefined.
\<close>
theorem estimate_not_rounded_up_counterexample:
  "0 \<le> limit_tuples \<lparr> limit_tuples = 5 \<rparr> \<and>
   tuplesPerList_b64 (example_pg 100 4 1) (example_path 1000 [] [Expr 0]) 100 = 10 \<and>
   EstimateProbes_b64 (example_pg 100 4 1) \<lparr> limit_tuples = 5 \<rparr>
       (example_path 1000 [] [Expr 0]) 100 = Inr 0 \<and>
   \<lceil>limit_tuples \<lparr> limit_tuples = 5 \<rparr>
      / tuplesPerList_b64 (example_pg 100 4 1) (example_path 1000 [] [Expr 0]) 100\<rceil> = 1 \<and>
   0 \<le> limit_tuples \<lparr> limit_tuples = 1000000000000 \<rparr> \<and>
   EstimateProbes_b64 (example_pg 100 4 1) \<lparr> limit_tuples = 1000000000000 \<rparr>
       (example_path 1000 [] [Expr 0]) 100 = Inl Undefined_conversion \<and>
   \<lceil>limit_tuples \<lparr> limit_tuples = 1000000000000 \<rparr>
      / tuplesPerList_b64 (example_pg 100 4 1) (example_path 1000 [] [Expr 0]) 100\<rceil>
     = 100000000000 \<and>
   INT_MAX < 100000000000"
proof -
  have big: "fl64 (real_of_int 100000000000) = real_of_int 100000000000"
    by (rule fl64_of_int) simp
  show ?thesis
    using big
    by (simp add: EstimateProbes_b64_def tuplesPerList_b64_1000 fl64_half double_to_int_def
        trunc_def INT_MIN_def INT_MAX_def ceiling_eq_iff)
qed

text \<open>
  C4, as the code has it. For a limit that is not negative and a yield per list other than zero,
  the adaptive estimate is the binary64 quotient of the limit by the yield, converted to
  \<^verbatim>\<open>int\<close>: its fraction is discarded (towards zero), it is not rounded upwards, and no
  cap is applied. While the exact quotient \<open>q\<close> of the two is within the range of
  \<^verbatim>\<open>int\<close> the conversion is defined and the estimate lies between \<open>q\<close> rounded
  downwards and \<open>q\<close> rounded upwards (and is \<open>q\<close> when \<open>q\<close> is an integer); when the value
  to convert is outside that range the conversion is undefined.
\<close>
theorem estimate_is_truncated_quotient:
  assumes "0 \<le> limit_tuples root'" and "tuplesPerList_b64 pg path lists' \<noteq> 0"
  shows "(let q = limit_tuples root' / tuplesPerList_b64 pg path lists' in
          EstimateProbes_b64 pg root' path lists' =
            (if INT_MIN \<le> trunc (fl64 q) \<and> trunc (fl64 q) \<le> INT_MAX
             then Inr (trunc (fl64 q)) else Inl Undefined_conversion) \<and>
          (real_of_int INT_MIN \<le> q \<and> q \<le> real_of_int INT_MAX \<longrightarrow>
             EstimateProbes_b64 pg root' path lists' = Inr (trunc (fl64 q)) \<and>
             \<lfloor>q\<rfloor> \<le> trunc (fl64 q) \<and> trunc (fl64 q) \<le> \<lceil>q\<rceil>))"
proof -
  define q where "q = limit_tuples root' / tuplesPerList_b64 pg path lists'"
  have e: "EstimateProbes_b64 pg root' path lists' =
            (if INT_MIN \<le> trunc (fl64 q) \<and> trunc (fl64 q) \<le> INT_MAX
             then Inr (trunc (fl64 q)) else Inl Undefined_conversion)"
    using assms by (simp add: EstimateProbes_b64_def double_to_int_def q_def)
  have f: "EstimateProbes_b64 pg root' path lists' = Inr (trunc (fl64 q)) \<and>
           \<lfloor>q\<rfloor> \<le> trunc (fl64 q) \<and> trunc (fl64 q) \<le> \<lceil>q\<rceil>"
    if "real_of_int INT_MIN \<le> q" and "q \<le> real_of_int INT_MAX"
  proof -
    note r = INT_range_53 [OF that]
    note b = trunc_fl64_between [OF r(1)]
    from b r(2,3) have "INT_MIN \<le> trunc (fl64 q)" and "trunc (fl64 q) \<le> INT_MAX"
      by linarith+
    with e b show ?thesis by simp
  qed
  from e f show ?thesis unfolding Let_def q_def by blast
qed

theorem estimate_is_truncated_quotient_witness:
  "0 \<le> limit_tuples \<lparr> limit_tuples = 55 \<rparr> \<and>
   tuplesPerList_b64 (example_pg 100 4 1) (example_path 110 [] [Expr 0]) 100
     = 2476979795053773 / 2251799813685248 \<and>
   EstimateProbes_b64 (example_pg 100 4 1) \<lparr> limit_tuples = 55 \<rparr>
       (example_path 110 [] [Expr 0]) 100 = Inr 49 \<and>
   \<lfloor>55 / (2476979795053773 / 2251799813685248 :: real)\<rfloor> = 49 \<and>
   \<lceil>55 / (2476979795053773 / 2251799813685248 :: real)\<rceil> = 50"
proof -
  have e: "EstimateProbes_b64 (example_pg 100 4 1) \<lparr> limit_tuples = 55 \<rparr>
       (example_path 110 [] [Expr 0]) 100 = Inr 49"
    by (simp add: EstimateProbes_b64_def tuplesPerList_b64_110 fl64_quotient_55
        double_to_int_def trunc_def INT_MIN_def INT_MAX_def)
  have c: "\<lceil>55 / (2476979795053773 / 2251799813685248 :: real)\<rceil> = 50"
    by (simp add: ceiling_eq_iff)
  from estimate_is_truncated_quotient [of "\<lparr> limit_tuples = 55 \<rparr>" "example_pg 100 4 1"
      "example_path 110 [] [Expr 0]" 100] e c
  show ?thesis
    by (simp add: tuplesPerList_b64_110)
qed

text \<open>
  C5. With streaming on, the probe count is the larger of the configured probes and the
  adaptive estimate, and then, when \<^verbatim>\<open>ivfflat.max_probes\<close> is not \<open>-1\<close>, the smaller of
  that and \<^verbatim>\<open>ivfflat.max_probes\<close>: the floor is applied before the ceiling. For an index
  of 1000 tuples and 100 lists, a combined selectivity of 1, a limit of 50 and configured
  probes 1, the yield per list is 10, the estimate is 5, and the probe count is 5 without a
  ceiling and 3 with \<^verbatim>\<open>ivfflat.max_probes = 3\<close>.
\<close>
theorem streaming_probes_floor_then_ceiling:
  "(ivfflat_streaming cfg \<and> EstimateProbes pg root' path lists' = Inr est \<longrightarrow>
      choose_probes cfg pg root' path lists' =
        (if ivfflat_max_probes cfg \<noteq> - 1
         then Inr (min (max (ivfflat_probes cfg) est) (ivfflat_max_probes cfg))
         else Inr (max (ivfflat_probes cfg) est))) \<and>
   (tuples (indexinfo path) = 1000 \<and>
    restrict_selectivity (DEFAULT_INEQ_SEL pg) 1 (indrestrictinfo (indexinfo path)) = 1 \<and>
    limit_tuples root' = 50 \<longrightarrow>
      tuplesPerList pg path 100 = 10 \<and>
      EstimateProbes pg root' path 100 = Inr 5 \<and>
      choose_probes \<lparr> ivfflat_probes = 1, ivfflat_max_probes = - 1, ivfflat_streaming = True \<rparr>
        pg root' path 100 = Inr 5 \<and>
      choose_probes \<lparr> ivfflat_probes = 1, ivfflat_max_probes = 3, ivfflat_streaming = True \<rparr>
        pg root' path 100 = Inr 3)"
proof -
  have e: "EstimateProbes pg root' path 100 = Inr 5 \<and> tuplesPerList pg path 100 = 10"
    if "tuples (indexinfo path) = 1000"
      and "restrict_selectivity (DEFAULT_INEQ_SEL pg) 1 (indrestrictinfo (indexinfo path)) = 1"
      and "limit_tuples root' = 50"
    using that by (simp add: estimate_defs)
  show ?thesis
    using e by (auto simp: choose_probes_streaming)
qed

theorem streaming_probes_floor_then_ceiling_witness:
  "choose_probes (example_config 1 (- 1) True) (example_pg 100 4 1) \<lparr> limit_tuples = 50 \<rparr>
       (example_path 1000 [] [Expr 0]) 100 = Inr 5 \<and>
   choose_probes (example_config 1 3 True) (example_pg 100 4 1) \<lparr> limit_tuples = 50 \<rparr>
       (example_path 1000 [] [Expr 0]) 100 = Inr 3 \<and>
   choose_probes (example_config 7 3 True) (example_pg 100 4 1) \<lparr> limit_tuples = 50 \<rparr>
       (example_path 1000 [] [Expr 0]) 100 = Inr 3 \<and>
   choose_probes (example_config 7 9 True) (example_pg 100 4 1) \<lparr> limit_tuples = 50 \<rparr>
       (example_path 1000 [] [Expr 0]) 100 = Inr 7"
  using streaming_probes_floor_then_ceiling [of "example_config 7 3 True" "example_pg 100 4 1"
      "\<lparr> limit_tuples = 50 \<rparr>" "example_path 1000 [] [Expr 0]" 100 5]
    streaming_probes_floor_then_ceiling [of "example_config 7 9 True" "example_pg 100 4 1"
      "\<lparr> limit_tuples = 50 \<rparr>" "example_path 1000 [] [Expr 0]" 100 5]
  by (simp add: example_defs)

text \<open>
  C6. The claim is that, with streaming on and a limit that is not negative, a yield per list of
  exactly zero makes the probe count the list count. In the source only the adaptive estimate
  becomes the list count; the ceiling is still applied to it: for an index without tuples, 100
  lists, configured probes 1 and \<^verbatim>\<open>ivfflat.max_probes = 3\<close> the probe count is 3.
\<close>
theorem zero_yield_capped_counterexample:
  "ivfflat_streaming (example_config 1 3 True) \<and>
   0 \<le> limit_tuples \<lparr> limit_tuples = 50 \<rparr> \<and>
   tuplesPerList (example_pg 100 4 1) (example_path 0 [] [Expr 0]) 100 = 0 \<and>
   choose_probes (example_config 1 3 True) (example_pg 100 4 1) \<lparr> limit_tuples = 50 \<rparr>
       (example_path 0 [] [Expr 0]) 100 = Inr 3 \<and>
   (3::int) \<noteq> 100"
  by (simp add: choose_probes_def Max_c_def Min_c_def estimate_defs example_defs)

text \<open>
  C6, as the code has it. With streaming on, a limit that is not negative and a yield per list
  of exactly zero, the adaptive estimate is the list count and no error is raised; the probe
  count is the larger of the configured probes and the list count, limited by
  \<^verbatim>\<open>ivfflat.max_probes\<close> when that is not \<open>-1\<close>. It is the list count when the
  configured probes are not above the list count and \<^verbatim>\<open>ivfflat.max_probes\<close> is \<open>-1\<close> or
  not below the list count.
\<close>
theorem zero_yield_fallback:
  assumes "ivfflat_streaming cfg" and "0 \<le> limit_tuples root'" and "1 \<le> lists'"
    and "tuplesPerList pg path lists' = 0"
  shows "EstimateProbes pg root' path lists' = Inr lists' \<and>
         choose_probes cfg pg root' path lists' =
           (if ivfflat_max_probes cfg \<noteq> - 1
            then Inr (min (max (ivfflat_probes cfg) lists') (ivfflat_max_probes cfg))
            else Inr (max (ivfflat_probes cfg) lists')) \<and>
         (ivfflat_probes cfg \<le> lists' \<and>
          (ivfflat_max_probes cfg = - 1 \<or> lists' \<le> ivfflat_max_probes cfg) \<longrightarrow>
            choose_probes cfg pg root' path lists' = Inr lists')"
proof -
  from assms(2,4) have e: "EstimateProbes pg root' path lists' = Inr lists'"
    by (simp add: EstimateProbes_def)
  with assms(1) show ?thesis
    by (auto simp: choose_probes_streaming)
qed

theorem zero_yield_fallback_witness:
  "ivfflat_streaming (example_config 1 (- 1) True) \<and>
   tuplesPerList (example_pg 100 4 1) (example_path 1000 [0] [Expr 0]) 100 = 0 \<and>
   EstimateProbes (example_pg 100 4 1) \<lparr> limit_tuples = 50 \<rparr>
       (example_path 1000 [0] [Expr 0]) 100 = Inr 100 \<and>
   choose_probes (example_config 1 (- 1) True) (example_pg 100 4 1) \<lparr> limit_tuples = 50 \<rparr>
       (example_path 1000 [0] [Expr 0]) 100 = Inr 100"
  using zero_yield_fallback [where cfg = "example_config 1 (- 1) True"
      and root' = "\<lparr> limit_tuples = 50 \<rparr>" and lists' = 100
      and pg = "example_pg 100 4 1" and path = "example_path 1000 [0] [Expr 0]"]
  by (simp add: tuplesPerList_def example_defs)

text \<open>
  C7. The combined selectivity is the product, from the accumulator 1, of the selectivities of
  exactly the restrictions whose selectivity lies in \<open>[0, 1]\<close> and differs from the placeholder
  \<^verbatim>\<open>DEFAULT_INEQ_SEL\<close>; every other restriction counts as the factor 1. Selectivities 0.5
  and 0.2 combine to 0.1, and a restriction whose selectivity is the placeholder is left out
  although the placeholder lies in \<open>[0, 1]\<close>. This product is the one line 95 divides by
  the list count.
\<close>
theorem combined_selectivity_product:
  "restrict_selectivity d 1 rs =
     prod_list (map norm_selec
       (filter (\<lambda>r. 0 \<le> norm_selec r \<and> norm_selec r \<le> 1 \<and> norm_selec r \<noteq> d) rs)) \<and>
   restrict_selectivity d 1 rs =
     prod_list (map (\<lambda>r. if 0 \<le> norm_selec r \<and> norm_selec r \<le> 1 \<and> norm_selec r \<noteq> d
                          then norm_selec r else 1) rs) \<and>
   (d \<noteq> 0.5 \<and> d \<noteq> 0.2 \<longrightarrow>
      restrict_selectivity d 1 [\<lparr> norm_selec = 0.5 \<rparr>, \<lparr> norm_selec = 0.2 \<rparr>] = 0.1) \<and>
   (d \<noteq> 0.5 \<and> d \<noteq> 0.2 \<longrightarrow>
      restrict_selectivity d 1
        [\<lparr> norm_selec = 0.5 \<rparr>, \<lparr> norm_selec = d \<rparr>, \<lparr> norm_selec = 0.2 \<rparr>] = 0.1) \<and>
   (1 \<le> lists' \<longrightarrow>
      tuplesPerList pg path lists' =
        tuples (indexinfo path)
          * prod_list (map norm_selec
              (filter (\<lambda>r. 0 \<le> norm_selec r \<and> norm_selec r \<le> 1
                           \<and> norm_selec r \<noteq> DEFAULT_INEQ_SEL pg)
                 (indrestrictinfo (indexinfo path))))
          / real_of_int lists')"
proof -
  have a: "restrict_selectivity d 1 rs =
     prod_list (map (\<lambda>r. if 0 \<le> norm_selec r \<and> norm_selec r \<le> 1 \<and> norm_selec r \<noteq> d
                          then norm_selec r else 1) rs)" for d rs
    by (simp add: restrict_selectivity_acc)
  have b: "restrict_selectivity d 1 rs =
     prod_list (map norm_selec
       (filter (\<lambda>r. 0 \<le> norm_selec r \<and> norm_selec r \<le> 1 \<and> norm_selec r \<noteq> d) rs))" for d rs
    unfolding a by (rule prod_list_filter_one)
  show ?thesis
    using a [of d rs] b [of d rs] by (simp add: tuplesPerList_def b)
qed

theorem combined_selectivity_product_witness:
  "DEFAULT_INEQ_SEL (example_pg 100 4 1) \<noteq> 0.5 \<and> DEFAULT_INEQ_SEL (example_pg 100 4 1) \<noteq> 0.2 \<and>
   0 \<le> DEFAULT_INEQ_SEL (example_pg 100 4 1) \<and> DEFAULT_INEQ_SEL (example_pg 100 4 1) \<le> 1 \<and>
   restrict_selectivity (DEFAULT_INEQ_SEL (example_pg 100 4 1)) 1
     [\<lparr> norm_selec = 0.5 \<rparr>, \<lparr> norm_selec = 0.3333333333333333 \<rparr>, \<lparr> norm_selec = 0.2 \<rparr>] = 0.1 \<and>
   restrict_selectivity (DEFAULT_INEQ_SEL (example_pg 100 4 1)) 1
     [\<lparr> norm_selec = 0.5 \<rparr>, \<lparr> norm_selec = 0.2 \<rparr>] = 0.1 \<and>
   restrict_selectivity (DEFAULT_INEQ_SEL (example_pg 100 4 1)) 1
     [\<lparr> norm_selec = - 1 \<rparr>, \<lparr> norm_selec = 0.5 \<rparr>, \<lparr> norm_selec = 2 \<rparr>] = 0.5"
  using combined_selectivity_product [where d = "DEFAULT_INEQ_SEL (example_pg 100 4 1)"
      and rs = "[\<lparr> norm_selec = - 1 \<rparr>, \<lparr> norm_selec = 0.5 \<rparr>, \<lparr> norm_selec = 2 \<rparr>]"
      and pg = "example_pg 100 4 1" and path = "example_path 1000 [] [Expr 0]"
      and lists' = 100]
  by (simp add: example_pg_def)

text \<open>
  C8. The claim is that, when the page count of the generic estimator is above the page count
  of the table and the ratio is below 0.5, the adjusted total cost is strictly below the total
  cost of the generic estimator. The adjustment subtracts
  \<open>numIndexPages * (random - seq) + (numIndexPages - pages) * seq\<close>, which is negative when the
  tablespace prices a random page below a sequential one: with page costs 1 (random) and 4
  (sequential), a generic total cost of 100 for 10 index pages and a table of 9 pages, the
  total cost returned is 126.
\<close>
theorem page_cost_adjustment_counterexample:
  "indexorderbys (example_path 1000 [] [Expr 0]) \<noteq> [] \<and>
   IvfflatGetMetaPageInfo (example_pg 100 1 4)
       (indexoid (indexinfo (example_path 1000 [] [Expr 0]))) = Some 100 \<and>
   choose_probes (example_config 1 (- 1) False) (example_pg 100 1 4) \<lparr> limit_tuples = 50 \<rparr>
       (example_path 1000 [] [Expr 0]) 100 = Inr 1 \<and>
   scan_ratio 1 100 < 0.5 \<and>
   numIndexPages (generic_costs (example_pg 100 1 4) \<lparr> limit_tuples = 50 \<rparr>
       (example_path 1000 [] [Expr 0]) 1 1 100)
     > real (pages (rel (indexinfo (example_path 1000 [] [Expr 0])))) \<and>
   indexTotalCost (generic_costs (example_pg 100 1 4) \<lparr> limit_tuples = 50 \<rparr>
       (example_path 1000 [] [Expr 0]) 1 1 100) = 100 \<and>
   ivfflatcostestimate (example_config 1 (- 1) False) (example_pg 100 1 4)
       \<lparr> limit_tuples = 50 \<rparr> (example_path 1000 [] [Expr 0]) 1 =
     Inr \<lparr> out_indexStartupCost = Finite 126, out_indexTotalCost = Finite 126,
           out_indexSelectivity = Finite (1 / 100), out_indexCorrelation = Finite 0,
           out_indexPages = Finite 10 \<rparr> \<and>
   \<not> (126::real) < 100"
  by (simp add: ivfflatcostestimate_def choose_probes_def scan_ratio_def generic_costs_def
      costs_init_def adjust_page_cost_def cap_selectivity_def report_costs_def example_defs)

text \<open>
  C8, as the code has it. When the page count of the generic estimator is above the page count
  of the table and the ratio is below 0.5, the estimate succeeds and its total cost (which is
  also its start-up cost) is strictly below the total cost of the generic estimator, provided
  the sequential page cost is not negative and not above the random page cost, and the random
  page cost is positive.
\<close>
theorem page_cost_adjustment_lowers_total:
  assumes "indexorderbys path \<noteq> []"
    and "IvfflatGetMetaPageInfo pg (indexoid (indexinfo path)) = Some lists'"
    and "1 \<le> lists'"
    and "choose_probes cfg pg root' path lists' = Inr probes"
    and "numIndexPages (generic_costs pg root' path loop_count probes lists')
           > real (pages (rel (indexinfo path)))"
    and "scan_ratio probes lists' < 0.5"
    and "0 \<le> snd (get_tablespace_page_costs pg (reltablespace (indexinfo path)))"
    and "snd (get_tablespace_page_costs pg (reltablespace (indexinfo path)))
           \<le> spc_random_page_cost (generic_costs pg root' path loop_count probes lists')"
    and "0 < spc_random_page_cost (generic_costs pg root' path loop_count probes lists')"
  shows "\<exists>out total. ivfflatcostestimate cfg pg root' path loop_count = Inr out \<and>
           out_indexTotalCost out = Finite total \<and>
           out_indexStartupCost out = Finite total \<and>
           total < indexTotalCost (generic_costs pg root' path loop_count probes lists')"
proof -
  define base where "base = generic_costs pg root' path loop_count probes lists'"
  define seq where "seq = snd (get_tablespace_page_costs pg (reltablespace (indexinfo path)))"
  define rp where "rp = real (pages (rel (indexinfo path)))"
  define total where "total = indexTotalCost base
      - numIndexPages base * (spc_random_page_cost base - seq) - (numIndexPages base - rp) * seq"
  have more: "rp < numIndexPages base" "0 \<le> seq" "seq \<le> spc_random_page_cost base"
    "0 < spc_random_page_cost base"
    using assms(5,7,8,9) by (simp_all add: base_def seq_def rp_def)
  have "0 \<le> rp" by (simp add: rp_def)
  with more(1) have npos: "0 < numIndexPages base" by simp
  have drop: "0 < numIndexPages base * (spc_random_page_cost base - seq)
                  + (numIndexPages base - rp) * seq"
  proof (cases "seq = 0")
    case True
    with npos more(4) show ?thesis by simp
  next
    case False
    with more(2) have "0 < seq" by simp
    with more(1) have "0 < (numIndexPages base - rp) * seq" by simp
    moreover from npos more(3) have "0 \<le> numIndexPages base * (spc_random_page_cost base - seq)"
      by simp
    ultimately show ?thesis by linarith
  qed
  then have less: "total < indexTotalCost base"
    by (simp add: total_def)
  have "indexTotalCost (adjust_page_cost base (pages (rel (indexinfo path)))
          (scan_ratio probes lists') seq) = total"
    using assms(5,6) unfolding total_def rp_def base_def
    by (rule adjust_page_cost_total)
  then have "ivfflatcostestimate cfg pg root' path loop_count =
          Inr (report_costs (cap_selectivity
             (adjust_page_cost base (pages (rel (indexinfo path))) (scan_ratio probes lists') seq)
             (scan_ratio probes lists'))) \<and>
        indexTotalCost (cap_selectivity
             (adjust_page_cost base (pages (rel (indexinfo path))) (scan_ratio probes lists') seq)
             (scan_ratio probes lists')) = total"
    using ivfflatcostestimate_total [OF assms(1,2,4)]
    by (simp add: cap_selectivity_total base_def seq_def)
  with less show ?thesis
    by (simp add: report_costs_def base_def)
qed

theorem page_cost_adjustment_lowers_total_witness:
  "ivfflatcostestimate (example_config 1 (- 1) False) (example_pg 100 4 1)
       \<lparr> limit_tuples = 50 \<rparr> (example_path 1000 [] [Expr 0]) 1 =
     Inr \<lparr> out_indexStartupCost = Finite 69, out_indexTotalCost = Finite 69,
           out_indexSelectivity = Finite (1 / 100), out_indexCorrelation = Finite 0,
           out_indexPages = Finite 10 \<rparr> \<and>
   indexTotalCost (generic_costs (example_pg 100 4 1) \<lparr> limit_tuples = 50 \<rparr>
       (example_path 1000 [] [Expr 0]) 1 1 100) = 100 \<and>
   (69::real) < 100"
proof -
  have g: "generic_costs (example_pg 100 4 1) \<lparr> limit_tuples = 50 \<rparr>
       (example_path 1000 [] [Expr 0]) 1 1 100 =
     \<lparr> indexStartupCost = 0, indexTotalCost = 100, indexSelectivity = 1,
       indexCorrelation = 0, numIndexPages = 10, numIndexTuples = 10,
       spc_random_page_cost = 4, num_sa_scans = 1 \<rparr>"
    by (simp add: generic_costs_def costs_init_def scan_ratio_def example_defs)
  have c: "choose_probes (example_config 1 (- 1) False) (example_pg 100 4 1)
       \<lparr> limit_tuples = 50 \<rparr> (example_path 1000 [] [Expr 0]) 100 = Inr 1"
    by (simp add: choose_probes_def example_config_def)
  have h: "indexorderbys (example_path 1000 [] [Expr 0]) \<noteq> []"
    "IvfflatGetMetaPageInfo (example_pg 100 4 1)
       (indexoid (indexinfo (example_path 1000 [] [Expr 0]))) = Some 100"
    "(1::int) \<le> 100"
    by (simp_all add: example_defs)
  have k: "numIndexPages (generic_costs (example_pg 100 4 1) \<lparr> limit_tuples = 50 \<rparr>
       (example_path 1000 [] [Expr 0]) 1 1 100)
           > real (pages (rel (indexinfo (example_path 1000 [] [Expr 0]))))"
    "scan_ratio 1 100 < 0.5"
    "0 \<le> snd (get_tablespace_page_costs (example_pg 100 4 1)
              (reltablespace (indexinfo (example_path 1000 [] [Expr 0]))))"
    "snd (get_tablespace_page_costs (example_pg 100 4 1)
              (reltablespace (indexinfo (example_path 1000 [] [Expr 0]))))
       \<le> spc_random_page_cost (generic_costs (example_pg 100 4 1) \<lparr> limit_tuples = 50 \<rparr>
       (example_path 1000 [] [Expr 0]) 1 1 100)"
    "0 < spc_random_page_cost (generic_costs (example_pg 100 4 1) \<lparr> limit_tuples = 50 \<rparr>
       (example_path 1000 [] [Expr 0]) 1 1 100)"
    unfolding g by (simp_all add: example_defs scan_ratio_def)
  have v: "ivfflatcostestimate (example_config 1 (- 1) False) (example_pg 100 4 1)
       \<lparr> limit_tuples = 50 \<rparr> (example_path 1000 [] [Expr 0]) 1 =
     Inr \<lparr> out_indexStartupCost = Finite 69, out_indexTotalCost = Finite 69,
           out_indexSelectivity = Finite (1 / 100), out_indexCorrelation = Finite 0,
           out_indexPages = Finite 10 \<rparr>"
    by (simp add: ivfflatcostestimate_def choose_probes_def scan_ratio_def generic_costs_def
      costs_init_def adjust_page_cost_def cap_selectivity_def report_costs_def example_defs)
  from page_cost_adjustment_lowers_total [OF h c k] v g show ?thesis
    by simp
qed

text \<open>
  C9. In every call that reaches the generic estimator with a probe count \<open>p\<close> of at least 1
  and a list count \<open>L\<close> of at least 1, also when \<open>p\<close> is above \<open>L\<close>, the ratio of the index
  visited is \<open>min (p / L) 1\<close> and lies in \<open>(0, 1]\<close>; the costs structure handed to
  \<^verbatim>\<open>genericcostestimate\<close> is zero except for its number of index tuples, which is the
  tuple count of the index times that ratio, and the result of the call is computed from what
  the generic estimator returns for it. The number handed over is never above the tuple count
  of the index in magnitude, and for a tuple count that is not negative (it is a count) it lies
  between 0 and the tuple count.
\<close>
theorem ratio_fed_to_generic_estimator:
  assumes "indexorderbys path \<noteq> []"
    and "IvfflatGetMetaPageInfo pg (indexoid (indexinfo path)) = Some lists'"
    and "choose_probes cfg pg root' path lists' = Inr p"
    and "1 \<le> p" and "1 \<le> lists'"
  shows "(let ratio = min (real_of_int p / real_of_int lists') 1;
              fed = \<lparr> indexStartupCost = 0, indexTotalCost = 0, indexSelectivity = 0,
                      indexCorrelation = 0, numIndexPages = 0,
                      numIndexTuples = tuples (indexinfo path) * ratio,
                      spc_random_page_cost = 0, num_sa_scans = 0 \<rparr>
          in 0 < ratio \<and> ratio \<le> 1 \<and> scan_ratio p lists' = ratio \<and>
             generic_costs pg root' path loop_count p lists' =
               genericcostestimate pg root' path loop_count fed \<and>
             ivfflatcostestimate cfg pg root' path loop_count =
               Inr (report_costs (cap_selectivity
                 (adjust_page_cost (genericcostestimate pg root' path loop_count fed)
                    (pages (rel (indexinfo path))) ratio
                    (snd (get_tablespace_page_costs pg (reltablespace (indexinfo path)))))
                 ratio)) \<and>
             \<bar>numIndexTuples fed\<bar> \<le> \<bar>tuples (indexinfo path)\<bar> \<and>
             (0 \<le> tuples (indexinfo path) \<longrightarrow>
                0 \<le> numIndexTuples fed \<and> numIndexTuples fed \<le> tuples (indexinfo path)))"
proof -
  define ratio where "ratio = min (real_of_int p / real_of_int lists') 1"
  define fed where "fed = \<lparr> indexStartupCost = 0, indexTotalCost = 0, indexSelectivity = 0,
                      indexCorrelation = 0, numIndexPages = 0,
                      numIndexTuples = tuples (indexinfo path) * ratio,
                      spc_random_page_cost = 0, num_sa_scans = 0 \<rparr>"
  have r: "0 < ratio" "ratio \<le> 1"
    using assms(4,5) by (simp_all add: ratio_def)
  have s: "scan_ratio p lists' = ratio"
    by (simp add: scan_ratio_min ratio_def)
  have g: "generic_costs pg root' path loop_count p lists' =
             genericcostestimate pg root' path loop_count fed"
    by (simp add: generic_costs_def costs_init_def s fed_def)
  have i: "ivfflatcostestimate cfg pg root' path loop_count =
               Inr (report_costs (cap_selectivity
                 (adjust_page_cost (genericcostestimate pg root' path loop_count fed)
                    (pages (rel (indexinfo path))) ratio
                    (snd (get_tablespace_page_costs pg (reltablespace (indexinfo path)))))
                 ratio))"
    using ivfflatcostestimate_total [OF assms(1,2,3), of loop_count] by (simp add: g s)
  have n: "numIndexTuples fed = tuples (indexinfo path) * ratio"
    by (simp add: fed_def)
  have "\<bar>tuples (indexinfo path) * ratio\<bar> = \<bar>tuples (indexinfo path)\<bar> * ratio"
    using r(1) by (simp add: abs_mult)
  also have "\<dots> \<le> \<bar>tuples (indexinfo path)\<bar> * 1"
    using r(2) by (intro mult_left_mono) simp_all
  finally have a: "\<bar>numIndexTuples fed\<bar> \<le> \<bar>tuples (indexinfo path)\<bar>"
    by (simp add: n)
  have b: "0 \<le> numIndexTuples fed \<and> numIndexTuples fed \<le> tuples (indexinfo path)"
    if "0 \<le> tuples (indexinfo path)"
  proof -
    from that r(1) have "0 \<le> tuples (indexinfo path) * ratio" by simp
    moreover from that r(2) have "tuples (indexinfo path) * ratio \<le> tuples (indexinfo path) * 1"
      by (intro mult_left_mono) simp_all
    ultimately show ?thesis by (simp add: n)
  qed
  from r s g i a b show ?thesis
    unfolding Let_def ratio_def [symmetric] fed_def [symmetric] by blast
qed

theorem ratio_fed_to_generic_estimator_witness:
  "choose_probes (example_config 200 (- 1) False) (example_pg_echo 100) \<lparr> limit_tuples = 50 \<rparr>
       (example_path 1000 [] [Expr 0]) 100 = Inr 200 \<and>
   ivfflatcostestimate (example_config 200 (- 1) False) (example_pg_echo 100)
       \<lparr> limit_tuples = 50 \<rparr> (example_path 1000 [] [Expr 0]) 1 =
     Inr \<lparr> out_indexStartupCost = Finite 2500, out_indexTotalCost = Finite 2500,
           out_indexSelectivity = Finite 1, out_indexCorrelation = Finite 0,
           out_indexPages = Finite 1000 \<rparr> \<and>
   choose_probes (example_config 3 (- 1) False) (example_pg_echo 100) \<lparr> limit_tuples = 50 \<rparr>
       (example_path 1000 [] [Expr 0]) 100 = Inr 3 \<and>
   ivfflatcostestimate (example_config 3 (- 1) False) (example_pg_echo 100)
       \<lparr> limit_tuples = 50 \<rparr> (example_path 1000 [] [Expr 0]) 1 =
     Inr \<lparr> out_indexStartupCost = Finite 9, out_indexTotalCost = Finite 9,
           out_indexSelectivity = Finite (3 / 100), out_indexCorrelation = Finite 0,
           out_indexPages = Finite 30 \<rparr>"
proof -
  have c: "choose_probes (example_config 200 (- 1) False) (example_pg_echo 100)
       \<lparr> limit_tuples = 50 \<rparr> (example_path 1000 [] [Expr 0]) 100 = Inr 200"
    "choose_probes (example_config 3 (- 1) False) (example_pg_echo 100)
       \<lparr> limit_tuples = 50 \<rparr> (example_path 1000 [] [Expr 0]) 100 = Inr 3"
    by (simp_all add: choose_probes_def example_config_def)
  have h: "indexorderbys (example_path 1000 [] [Expr 0]) \<noteq> []"
    "IvfflatGetMetaPageInfo (example_pg_echo 100)
       (indexoid (indexinfo (example_path 1000 [] [Expr 0]))) = Some 100"
    by (simp_all add: example_path_def example_pg_echo_def)
  from ratio_fed_to_generic_estimator [OF h c(1), of 1]
    ratio_fed_to_generic_estimator [OF h c(2), of 1] c
  show ?thesis
    by (simp add: example_path_def example_pg_echo_def echo_generic_def adjust_page_cost_def
        cap_selectivity_def report_costs_def)
qed

text \<open>
  C10. With streaming off the five outputs do not depend on \<^verbatim>\<open>ivfflat.max_probes\<close>: two
  calls on the same query whose settings agree on \<^verbatim>\<open>ivfflat.probes\<close> and both have
  streaming off return the same result, whatever the two values of
  \<^verbatim>\<open>ivfflat.max_probes\<close> are.
\<close>
theorem fixed_mode_ignores_max_probes:
  assumes "\<not> ivfflat_streaming cfg1" and "\<not> ivfflat_streaming cfg2"
    and "ivfflat_probes cfg1 = ivfflat_probes cfg2"
  shows "ivfflatcostestimate cfg1 pg root' path loop_count =
         ivfflatcostestimate cfg2 pg root' path loop_count"
  using assms
  by (simp add: ivfflatcostestimate_def choose_probes_fixed split: option.splits)

theorem fixed_mode_ignores_max_probes_witness:
  "ivfflatcostestimate (example_config 2 (- 1) False) (example_pg 100 4 1)
       \<lparr> limit_tuples = 50 \<rparr> (example_path 1000 [] [Expr 0]) 1 =
   ivfflatcostestimate (example_config 2 1 False) (example_pg 100 4 1)
       \<lparr> limit_tuples = 50 \<rparr> (example_path 1000 [] [Expr 0]) 1"
  using fixed_mode_ignores_max_probes [of "example_config 2 (- 1) False"
      "example_config 2 1 False" "example_pg 100 4 1" "\<lparr> limit_tuples = 50 \<rparr>"
      "example_path 1000 [] [Expr 0]" 1]
  by (simp add: example_config_def)

end
